theory Spec2Isabelle
  imports Main "HOL-Library.Word"
begin

section \<open>Data model\<close>

text \<open>
  The embedding follows \<^verbatim>\<open>jwtkms/kms_pss_signingmethod.go\<close>. Go's \<^verbatim>\<open>[]byte\<close> is a
  list of 8-bit words, a Go \<^verbatim>\<open>string\<close> is a list of 8-bit characters, and
  \<^verbatim>\<open>crypto.Hash\<close> (an unsigned integer naming a hash function) is a natural number.
\<close>

type_synonym bytes = "8 word list"

type_synonym crypto_Hash = nat

definition bytes_of :: "string \<Rightarrow> bytes" where
  \<comment> \<open>the conversion \<^verbatim>\<open>[]byte(s)\<close>\<close>
  "bytes_of s = map of_char s"

text \<open>
  A Go \<^verbatim>\<open>error\<close> value. The function returns \<^verbatim>\<open>nil\<close> for success, so its result is an
  \<open>error option\<close> with \<open>None\<close> for \<^verbatim>\<open>nil\<close>.
  \<^item> \<open>ErrInvalidKeyType\<close> and \<open>ErrHashUnavailable\<close> are the sentinels
    \<^verbatim>\<open>jwt.ErrInvalidKeyType\<close> and \<^verbatim>\<open>jwt.ErrHashUnavailable\<close>;
  \<^item> \<open>ErrorsNew msg\<close> is \<^verbatim>\<open>errors.New(msg)\<close>;
  \<^item> \<open>Errorf label err\<close> is \<^verbatim>\<open>fmt.Errorf(label + ": %w", err)\<close>, the error \<open>err\<close>
    wrapped under an operation label;
  \<^item> \<open>ExternalError msg\<close> is an error value produced by a collaborator (the base64
    decoder, the KMS client, the X.509 parser, the RSA primitive, the JWT library).
\<close>

datatype error =
    ErrInvalidKeyType
  | ErrHashUnavailable
  | ErrorsNew string
  | Errorf string error
  | ExternalError string

record rsa_PublicKey =
  N :: int
  E :: int

text \<open>
  \<^verbatim>\<open>crypto.PublicKey\<close> is an empty interface; the values it holds here are the ones
  \<^verbatim>\<open>x509.ParsePKIXPublicKey\<close> produces: \<^verbatim>\<open>*rsa.PublicKey\<close>, or a key of another family
  (DSA, ECDSA, Ed25519, ECDH), kept with its raw material.
\<close>

datatype crypto_PublicKey =
    RsaKey rsa_PublicKey
  | DsaKey bytes
  | EcdsaKey bytes
  | Ed25519Key bytes
  | EcdhKey bytes

record rsa_PSSOptions =
  SaltLength :: int
  Hash :: crypto_Hash

datatype context_Context = Context nat

text \<open>
  Every access to the two shared resources is recorded, in order, in a trace: the
  public-key cache (\<^verbatim>\<open>pubkeyCache.Get\<close>, \<^verbatim>\<open>pubkeyCache.Add\<close>) and the remote gateway
  (\<^verbatim>\<open>kmsClient.GetPublicKey\<close>, \<^verbatim>\<open>kmsClient.Verify\<close>), each with the key identifier
  it was called for.
\<close>

datatype event =
    CacheGet string
  | CacheAdd string
  | KmsGetPublicKey string
  | KmsVerify string

text \<open>
  The state the code acts on: the process-wide public-key cache, the state of the
  remote service (of any type \<open>'g\<close>: the service may answer differently over time),
  and the trace of accesses.
\<close>

record 'g world =
  pubkeyCache :: "string \<rightharpoonup> crypto_PublicKey"
  kms :: 'g
  trace :: "event list"

text \<open>
  The interface \<^verbatim>\<open>KMSClient\<close> held by a configuration. \<^verbatim>\<open>GetPublicKey\<close> answers with
  the DER bytes of the key (\<^verbatim>\<open>getPubKeyOutput.PublicKey\<close>) or an error;
  \<^verbatim>\<open>Verify\<close> (context, key identifier, algorithm tag, digest, signature) answers
  with \<^verbatim>\<open>nil\<close> or an error. Both may change the state of the service.
\<close>

record 'g KMSClient =
  GetPublicKey :: "context_Context \<Rightarrow> string \<Rightarrow> 'g \<Rightarrow> (error + bytes) \<times> 'g"
  KmsVerifyOp :: "context_Context \<Rightarrow> string \<Rightarrow> string \<Rightarrow> bytes \<Rightarrow> bytes \<Rightarrow> 'g \<Rightarrow> error option \<times> 'g"

text \<open>
  Modelled from the spec: the declaration of \<^verbatim>\<open>Config\<close> is not in this file. The spec's
  Signing Configuration is { key identifier, verify-with-remote, gateway handle,
  cancellation context }; the field names are the ones this file reads
  (\<^verbatim>\<open>cfg.kmsKeyID\<close>, \<^verbatim>\<open>cfg.verifyWithKMS\<close>, \<^verbatim>\<open>cfg.kmsClient\<close>, \<^verbatim>\<open>cfg.ctx\<close>).
\<close>

record 'g Config =
  kmsKeyID :: string
  verifyWithKMS :: bool
  kmsClient :: "'g KMSClient"
  ctx :: context_Context

text \<open>
  The dynamic value of the \<^verbatim>\<open>keyConfig interface{}\<close> argument: the \<^verbatim>\<open>nil\<close> interface,
  a \<^verbatim>\<open>*Config\<close>, a \<^verbatim>\<open>*rsa.PublicKey\<close>, or a value of any other dynamic type (named by
  its type, with some rendering of its contents: a \<^verbatim>\<open>string\<close>, a \<^verbatim>\<open>Config\<close> or an
  \<^verbatim>\<open>rsa.PublicKey\<close> passed by value, ...). The two pointers are taken to be non-nil.
\<close>

datatype 'g key =
    NilKey
  | ConfigPtr "'g Config"
  | RsaPublicKeyPtr rsa_PublicKey
  | OtherKey string string

text \<open>
  Modelled from the spec: the declaration of the embedded \<^verbatim>\<open>RSASigningMethod\<close> is not in
  this file. The spec's Signing Method Descriptor is { algorithm name, hash function
  identifier, ... }; the field names are the ones this file reads (\<^verbatim>\<open>m.algo\<close>,
  \<^verbatim>\<open>m.hash\<close>).
\<close>

record RSASigningMethod =
  algo :: string
  hash :: crypto_Hash

text \<open>
  \<^verbatim>\<open>jwt.SigningMethodRSAPSS\<close>, the JWT library's own in-process RSA-PSS method: its name,
  its hash, and its signing and verification options.
\<close>

record SigningMethodRSAPSS =
  Name :: string
  MethodHash :: crypto_Hash
  Options :: rsa_PSSOptions
  VerifyOptions :: "rsa_PSSOptions option"

text \<open>
  \<^verbatim>\<open>PSSSigningMethod\<close> embeds \<^verbatim>\<open>RSASigningMethod\<close> and adds the fallback method. The
  receiver, its fallback method and a configuration's gateway handle are taken to be
  non-nil: a nil one makes the Go code panic, which is outside this model.
\<close>

record PSSSigningMethod = RSASigningMethod +
  fallbackSigningMethod :: SigningMethodRSAPSS

text \<open>
  The library functions the code calls. They are outside the repository and are
  parameters of the model:
  \<^item> \<open>DecodeSegment\<close>: \<^verbatim>\<open>jwt.DecodeSegment\<close>, base64url decoding of the signature;
  \<^item> \<open>Available\<close>: \<^verbatim>\<open>crypto.Hash.Available\<close>;
  \<^item> \<open>Sum\<close>: the digest of a byte string under a hash
    (\<^verbatim>\<open>h := hash.New(); h.Write(b); h.Sum(nil)\<close>);
  \<^item> \<open>ParsePKIXPublicKey\<close>: \<^verbatim>\<open>x509.ParsePKIXPublicKey\<close>;
  \<^item> \<open>VerifyPSS\<close>: \<^verbatim>\<open>rsa.VerifyPSS\<close>, \<open>None\<close> when the signature is valid;
  \<^item> \<open>RSAPSS_Verify\<close>: the method \<^verbatim>\<open>(*jwt.SigningMethodRSAPSS).Verify\<close>. It has no
    handle on the gateway and cannot see the package-level cache, so it does not take
    the state.

  The last field is the eviction policy of the public-key cache, which the spec leaves
  to the cache (a size cap, or none): \<open>Retain env keyID c tr x\<close> tells whether an
  \<^verbatim>\<open>Add\<close> for \<open>keyID\<close>, made when the cache holds \<open>c\<close> and the accesses so far are
  \<open>tr\<close>, keeps the entry of the other identifier \<open>x\<close>. A cache that never evicts
  retains everything; a cache of capacity one retains nothing.
\<close>

record 'g env =
  DecodeSegment :: "string \<Rightarrow> error + bytes"
  Available :: "crypto_Hash \<Rightarrow> bool"
  Sum :: "crypto_Hash \<Rightarrow> bytes \<Rightarrow> bytes"
  ParsePKIXPublicKey :: "bytes \<Rightarrow> error + crypto_PublicKey"
  VerifyPSS :: "rsa_PublicKey \<Rightarrow> crypto_Hash \<Rightarrow> bytes \<Rightarrow> bytes \<Rightarrow> rsa_PSSOptions \<Rightarrow> error option"
  RSAPSS_Verify :: "SigningMethodRSAPSS \<Rightarrow> string \<Rightarrow> string \<Rightarrow> 'g key \<Rightarrow> error option"
  Retain :: "string \<Rightarrow> (string \<rightharpoonup> crypto_PublicKey) \<Rightarrow> event list \<Rightarrow> string \<Rightarrow> bool"

section \<open>Operations\<close>

text \<open>
  Modelled from the spec: the public-key cache is not in this file. The spec has a
  bounded mapping from key identifier to public key, with at most one entry per
  identifier, an entry's lifetime bounded by an eviction policy that the cache owns.
  Its contract is \<^verbatim>\<open>Get(keyID) -> publicKey | absent\<close>, which never fetches, and
  \<^verbatim>\<open>Add(keyID, publicKey)\<close>, an idempotent overwrite; a prior \<^verbatim>\<open>Add\<close> makes a later
  \<^verbatim>\<open>Get\<close> for the same identifier return that value until evicted. The contents are a
  map. \<^verbatim>\<open>Get\<close> looks the identifier up. \<^verbatim>\<open>Add\<close> first evicts the entries that the
  policy \<open>Retain\<close> does not keep, then stores the new entry, so the entry just added is
  always present. Each operation is recorded.
\<close>

definition pubkeyCache_Get :: "string \<Rightarrow> 'g world \<Rightarrow> crypto_PublicKey option \<times> 'g world" where
  "pubkeyCache_Get keyID w =
     (pubkeyCache w keyID, w\<lparr>trace := trace w @ [CacheGet keyID]\<rparr>)"

definition pubkeyCache_Add ::
  "'g env \<Rightarrow> string \<Rightarrow> crypto_PublicKey \<Rightarrow> 'g world \<Rightarrow> 'g world" where
  "pubkeyCache_Add env keyID key w =
     w\<lparr>pubkeyCache :=
         (\<lambda>x. if Retain env keyID (pubkeyCache w) (trace w) x then pubkeyCache w x else None)
           (keyID \<mapsto> key),
       trace := trace w @ [CacheAdd keyID]\<rparr>"

text \<open>The two calls on \<^verbatim>\<open>cfg.kmsClient\<close>, with the state threaded and the call recorded.\<close>

definition kmsClient_GetPublicKey :: "'g Config \<Rightarrow> 'g world \<Rightarrow> (error + bytes) \<times> 'g world" where
  "kmsClient_GetPublicKey cfg w =
     (case GetPublicKey (kmsClient cfg) (ctx cfg) (kmsKeyID cfg) (kms w) of
        (r, g) \<Rightarrow> (r, w\<lparr>kms := g, trace := trace w @ [KmsGetPublicKey (kmsKeyID cfg)]\<rparr>))"

definition kmsClient_Verify ::
  "'g Config \<Rightarrow> string \<Rightarrow> bytes \<Rightarrow> bytes \<Rightarrow> 'g world \<Rightarrow> error option \<times> 'g world" where
  "kmsClient_Verify cfg a digest sig w =
     (case KmsVerifyOp (kmsClient cfg) (ctx cfg) (kmsKeyID cfg) a digest sig (kms w) of
        (r, g) \<Rightarrow> (r, w\<lparr>kms := g, trace := trace w @ [KmsVerify (kmsKeyID cfg)]\<rparr>))"

text \<open>
  Modelled from the spec: the shared helper \<^verbatim>\<open>verifyRSAOrPSS\<close> is not in this file. The
  spec has it delegate to the gateway's remote
  \<^verbatim>\<open>Verify(context, keyID, algorithmTag, digest, signatureBytes) -> ok | error\<close> and
  surface that outcome. The spec does not give the label under which an error is
  wrapped, so the outcome is passed on as the gateway gave it.
\<close>

definition verifyRSAOrPSS ::
  "'g Config \<Rightarrow> string \<Rightarrow> bytes \<Rightarrow> bytes \<Rightarrow> 'g world \<Rightarrow> error option \<times> 'g world" where
  "verifyRSAOrPSS cfg a hashedSigningString sig w =
     kmsClient_Verify cfg a hashedSigningString sig w"

text \<open>
  \<^verbatim>\<open>localVerifyPSS\<close> (lines 53 to 83). The inner \<open>case\<close> is the key resolution of lines
  56 to 71: the cache is read; on a miss the key is fetched, parsed and added to the
  cache, and each failure returns at once. The outer \<open>case\<close> is lines 73 to 82: the
  type assertion \<^verbatim>\<open>cachedKey.(*rsa.PublicKey)\<close> and \<^verbatim>\<open>rsa.VerifyPSS\<close> with
  \<^verbatim>\<open>&rsa.PSSOptions{}\<close>, the zero value of the options.
\<close>

definition localVerifyPSS ::
  "'g env \<Rightarrow> 'g Config \<Rightarrow> crypto_Hash \<Rightarrow> bytes \<Rightarrow> bytes \<Rightarrow> 'g world \<Rightarrow> error option \<times> 'g world" where
  "localVerifyPSS env cfg h hashedSigningString sig w =
     (case
        (case pubkeyCache_Get (kmsKeyID cfg) w of
           (Some cachedKey, w1) \<Rightarrow> (Inr cachedKey, w1)
         | (None, w1) \<Rightarrow>
             (case kmsClient_GetPublicKey cfg w1 of
                (Inl err, w2) \<Rightarrow> (Inl (Errorf ''getting public key'' err), w2)
              | (Inr publicKey, w2) \<Rightarrow>
                  (case ParsePKIXPublicKey env publicKey of
                     Inl err \<Rightarrow> (Inl (Errorf ''parsing public key'' err), w2)
                   | Inr cachedKey \<Rightarrow>
                       (Inr cachedKey, pubkeyCache_Add env (kmsKeyID cfg) cachedKey w2))))
      of
        (Inl err, w') \<Rightarrow> (Some err, w')
      | (Inr (RsaKey rsaPublicKey), w') \<Rightarrow>
          (case VerifyPSS env rsaPublicKey h hashedSigningString sig
                  \<lparr>SaltLength = 0, Hash = 0\<rparr> of
             Some err \<Rightarrow> (Some (Errorf ''verifying signature locally'' err), w')
           | None \<Rightarrow> (None, w'))
      | (Inr _, w') \<Rightarrow> (Some (ErrorsNew ''invalid key type for key''), w'))"

text \<open>\<^verbatim>\<open>(*PSSSigningMethod).Verify\<close> (lines 22 to 51).\<close>

definition PSSSigningMethod_Verify ::
  "'g env \<Rightarrow> PSSSigningMethod \<Rightarrow> string \<Rightarrow> string \<Rightarrow> 'g key \<Rightarrow> 'g world
     \<Rightarrow> error option \<times> 'g world" where
  "PSSSigningMethod_Verify env m signingString signature keyConfig w =
     (case keyConfig of
        ConfigPtr cfg \<Rightarrow>
          (case DecodeSegment env signature of
             Inl err \<Rightarrow> (Some (Errorf ''decoding signature'' err), w)
           | Inr sig \<Rightarrow>
               if \<not> Available env (hash m) then (Some ErrHashUnavailable, w)
               else
                 let hashedSigningString = Sum env (hash m) (bytes_of signingString)
                 in if verifyWithKMS cfg
                    then verifyRSAOrPSS cfg (algo m) hashedSigningString sig w
                    else localVerifyPSS env cfg (hash m) hashedSigningString sig w)
      | RsaPublicKeyPtr _ \<Rightarrow>
          (RSAPSS_Verify env (fallbackSigningMethod m) signingString signature keyConfig, w)
      | _ \<Rightarrow> (Some ErrInvalidKeyType, w))"

text \<open>
  A sequence of \<^verbatim>\<open>Verify\<close> calls, one after another on the shared state, each with its
  own method, signing string, signature and key argument; the results are dropped and
  the state after the last call is returned.
\<close>

fun Verify_calls ::
  "'g env \<Rightarrow> (PSSSigningMethod \<times> string \<times> string \<times> 'g key) list \<Rightarrow> 'g world \<Rightarrow> 'g world" where
  "Verify_calls env [] w = w"
| "Verify_calls env ((m, signingString, signature, keyConfig) # calls) w =
     Verify_calls env calls
       (snd (PSSSigningMethod_Verify env m signingString signature keyConfig w))"

section \<open>Mock collaborators\<close>

text \<open>
  Stand-ins for the collaborators, in the manner of a test double, to run the model on
  concrete inputs. The gateway knows three keys: \<open>test-key\<close> (an RSA key), \<open>ec-key\<close>
  (an ECDSA key) and \<open>bad-der\<close> (bytes that do not parse); its state counts the calls
  made. The decoder knows the segments \<open>c2ln\<close> and \<open>YmFk\<close> (base64url of \<open>sig\<close> and
  \<open>bad\<close>). The digest of a byte string is its reversal, and a signature is valid when
  it equals the digest. The cache of \<open>mockEnv\<close> never evicts; the cache of
  \<open>mockEnvCap1\<close> has capacity one, so each \<^verbatim>\<open>Add\<close> evicts every other entry.
\<close>

definition mockKMS :: "nat KMSClient" where
  "mockKMS =
     \<lparr>GetPublicKey = (\<lambda>c keyID g.
        (if keyID = ''test-key'' then Inr [0x30, 0x82]
         else if keyID = ''ec-key'' then Inr [0x30, 0x59]
         else if keyID = ''bad-der'' then Inr [0xFF]
         else Inl (ExternalError ''NotFoundException''), Suc g)),
      KmsVerifyOp = (\<lambda>c keyID a digest sig g.
        (if sig = digest then None
         else Some (ExternalError ''KMSInvalidSignatureException''), Suc g))\<rparr>"

definition mockEnv :: "nat env" where
  "mockEnv =
     \<lparr>DecodeSegment = (\<lambda>s.
        if s = ''c2ln'' then Inr [0x73, 0x69, 0x67]
        else if s = ''YmFk'' then Inr [0x62, 0x61, 0x64]
        else Inl (ExternalError ''illegal base64 data'')),
      Available = (\<lambda>h. h = 5),
      Sum = (\<lambda>h b. rev b),
      ParsePKIXPublicKey = (\<lambda>der.
        if der = [0x30, 0x82] then Inr (RsaKey \<lparr>N = 3233, E = 17\<rparr>)
        else if der = [0x30, 0x59] then Inr (EcdsaKey [0x04])
        else Inl (ExternalError ''asn1: structure error'')),
      VerifyPSS = (\<lambda>pub h digest sig opts.
        if sig = digest \<and> SaltLength opts = 0 then None
        else Some (ExternalError ''crypto/rsa: verification error'')),
      RSAPSS_Verify = (\<lambda>fm s sig k.
        if sig = ''c2ln'' then None
        else Some (ExternalError ''crypto/rsa: verification error'')),
      Retain = (\<lambda>keyID c tr x. True)\<rparr>"

definition mockEnvCap1 :: "nat env" where
  "mockEnvCap1 = mockEnv\<lparr>Retain := (\<lambda>keyID c tr x. False)\<rparr>"

definition PS256 :: PSSSigningMethod where
  "PS256 =
     \<lparr>algo = ''RSASSA_PSS_SHA_256'', hash = 5,
      fallbackSigningMethod =
        \<lparr>Name = ''PS256'', MethodHash = 5,
         Options = \<lparr>SaltLength = - 1, Hash = 0\<rparr>,
         VerifyOptions = Some \<lparr>SaltLength = 0, Hash = 0\<rparr>\<rparr>\<rparr>"

definition mockConfig :: "string \<Rightarrow> bool \<Rightarrow> nat Config" where
  "mockConfig keyID remote =
     \<lparr>kmsKeyID = keyID, verifyWithKMS = remote, kmsClient = mockKMS, ctx = Context 0\<rparr>"

definition emptyWorld :: "nat world" where
  "emptyWorld = \<lparr>pubkeyCache = Map.empty, kms = 0, trace = []\<rparr>"

definition warmWorld :: "nat world" where
  \<comment> \<open>the state after one local verify for \<open>test-key\<close> from the empty state\<close>
  "warmWorld =
     \<lparr>pubkeyCache = [''test-key'' \<mapsto> RsaKey \<lparr>N = 3233, E = 17\<rparr>], kms = 1,
      trace = [CacheGet ''test-key'', KmsGetPublicKey ''test-key'', CacheAdd ''test-key'']\<rparr>"

lemmas mock_defs =
  mockKMS_def mockEnv_def mockEnvCap1_def PS256_def mockConfig_def emptyWorld_def
  warmWorld_def

lemmas op_defs =
  pubkeyCache_Get_def pubkeyCache_Add_def kmsClient_GetPublicKey_def
  kmsClient_Verify_def verifyRSAOrPSS_def bytes_of_def

section \<open>The paths of \<open>localVerifyPSS\<close>\<close>

text \<open>
  \<^verbatim>\<open>localVerifyPSS\<close> has four paths, chosen by the cache, the gateway's answer and the
  parser's answer. Each lemma gives the result and the whole final state of one path.
\<close>

lemma localVerifyPSS_hit:
  assumes "pubkeyCache w (kmsKeyID cfg) = Some k"
  shows "localVerifyPSS env cfg h d sig w =
           (case k of
              RsaKey pub \<Rightarrow>
                (case VerifyPSS env pub h d sig \<lparr>SaltLength = 0, Hash = 0\<rparr> of
                   Some err \<Rightarrow> Some (Errorf ''verifying signature locally'' err)
                 | None \<Rightarrow> None)
            | _ \<Rightarrow> Some (ErrorsNew ''invalid key type for key''),
            w\<lparr>trace := trace w @ [CacheGet (kmsKeyID cfg)]\<rparr>)"
  using assms
  by (simp add: localVerifyPSS_def pubkeyCache_Get_def
      split: crypto_PublicKey.split option.split)

lemma localVerifyPSS_miss_gateway_error:
  assumes "pubkeyCache w (kmsKeyID cfg) = None"
    and "GetPublicKey (kmsClient cfg) (ctx cfg) (kmsKeyID cfg) (kms w) = (Inl err, g)"
  shows "localVerifyPSS env cfg h d sig w =
           (Some (Errorf ''getting public key'' err),
            w\<lparr>kms := g,
              trace := trace w @ [CacheGet (kmsKeyID cfg), KmsGetPublicKey (kmsKeyID cfg)]\<rparr>)"
  using assms
  by (simp add: localVerifyPSS_def pubkeyCache_Get_def kmsClient_GetPublicKey_def)

lemma localVerifyPSS_miss_parse_error:
  assumes "pubkeyCache w (kmsKeyID cfg) = None"
    and "GetPublicKey (kmsClient cfg) (ctx cfg) (kmsKeyID cfg) (kms w) = (Inr der, g)"
    and "ParsePKIXPublicKey env der = Inl err"
  shows "localVerifyPSS env cfg h d sig w =
           (Some (Errorf ''parsing public key'' err),
            w\<lparr>kms := g,
              trace := trace w @ [CacheGet (kmsKeyID cfg), KmsGetPublicKey (kmsKeyID cfg)]\<rparr>)"
  using assms
  by (simp add: localVerifyPSS_def pubkeyCache_Get_def kmsClient_GetPublicKey_def)

lemma localVerifyPSS_miss_parsed:
  assumes "pubkeyCache w (kmsKeyID cfg) = None"
    and "GetPublicKey (kmsClient cfg) (ctx cfg) (kmsKeyID cfg) (kms w) = (Inr der, g)"
    and "ParsePKIXPublicKey env der = Inr k"
  shows "localVerifyPSS env cfg h d sig w =
           (case k of
              RsaKey pub \<Rightarrow>
                (case VerifyPSS env pub h d sig \<lparr>SaltLength = 0, Hash = 0\<rparr> of
                   Some err \<Rightarrow> Some (Errorf ''verifying signature locally'' err)
                 | None \<Rightarrow> None)
            | _ \<Rightarrow> Some (ErrorsNew ''invalid key type for key''),
            w\<lparr>pubkeyCache :=
                (\<lambda>x. if Retain env (kmsKeyID cfg) (pubkeyCache w)
                            (trace w @ [CacheGet (kmsKeyID cfg), KmsGetPublicKey (kmsKeyID cfg)]) x
                     then pubkeyCache w x else None)
                  (kmsKeyID cfg \<mapsto> k),
              kms := g,
              trace := trace w @ [CacheGet (kmsKeyID cfg), KmsGetPublicKey (kmsKeyID cfg),
                                  CacheAdd (kmsKeyID cfg)]\<rparr>)"
  using assms
  by (simp add: localVerifyPSS_def pubkeyCache_Get_def kmsClient_GetPublicKey_def
      pubkeyCache_Add_def split: crypto_PublicKey.split option.split
      cong del: if_weak_cong)

text \<open>A call that returns \<^verbatim>\<open>nil\<close> leaves an RSA key in the cache that accepted the signature.\<close>

lemma localVerifyPSS_nil:
  assumes "localVerifyPSS env cfg h d sig w = (None, w')"
  shows "\<exists>pub. pubkeyCache w' (kmsKeyID cfg) = Some (RsaKey pub) \<and>
               VerifyPSS env pub h d sig \<lparr>SaltLength = 0, Hash = 0\<rparr> = None"
proof (cases "pubkeyCache w (kmsKeyID cfg)")
  case (Some k)
  with assms show ?thesis
    by (auto simp: localVerifyPSS_hit split: crypto_PublicKey.splits option.splits)
next
  case None
  obtain r g where gp: "GetPublicKey (kmsClient cfg) (ctx cfg) (kmsKeyID cfg) (kms w) = (r, g)"
    by (cases "GetPublicKey (kmsClient cfg) (ctx cfg) (kmsKeyID cfg) (kms w)")
  show ?thesis
  proof (cases r)
    case (Inl err)
    with None gp assms show ?thesis by (simp add: localVerifyPSS_miss_gateway_error)
  next
    case (Inr der)
    show ?thesis
    proof (cases "ParsePKIXPublicKey env der")
      case (Inl err)
      with None gp Inr assms show ?thesis by (simp add: localVerifyPSS_miss_parse_error)
    next
      case (Inr k)
      with None gp \<open>r = Inr der\<close> assms show ?thesis
        by (auto simp: localVerifyPSS_miss_parsed split: crypto_PublicKey.splits option.splits)
    qed
  qed
qed

section \<open>Cache entries persist until evicted\<close>

text \<open>
  The only \<^verbatim>\<open>Add\<close> of this file is on a miss, for the key identifier that was missing.
  So an entry leaves the cache only by eviction: when the policy retains the entry of
  \<open>K\<close> at every \<^verbatim>\<open>Add\<close>, no call removes or replaces it.
\<close>

lemma localVerifyPSS_cache_keeps:
  assumes "pubkeyCache w K = Some k" and "\<forall>keyID c tr. Retain env keyID c tr K"
  shows "pubkeyCache (snd (localVerifyPSS env cfg h d sig w)) K = Some k"
proof (cases "pubkeyCache w (kmsKeyID cfg)")
  case (Some k')
  then show ?thesis using assms(1) by (simp add: localVerifyPSS_hit)
next
  case None
  then have ne: "kmsKeyID cfg \<noteq> K" using assms(1) by auto
  obtain r g where gp: "GetPublicKey (kmsClient cfg) (ctx cfg) (kmsKeyID cfg) (kms w) = (r, g)"
    by (cases "GetPublicKey (kmsClient cfg) (ctx cfg) (kmsKeyID cfg) (kms w)")
  show ?thesis
  proof (cases r)
    case (Inl err)
    with None gp assms(1) show ?thesis by (simp add: localVerifyPSS_miss_gateway_error)
  next
    case (Inr der)
    show ?thesis
    proof (cases "ParsePKIXPublicKey env der")
      case (Inl err)
      with None gp Inr assms(1) show ?thesis by (simp add: localVerifyPSS_miss_parse_error)
    next
      case (Inr k')
      with None gp \<open>r = Inr der\<close> assms ne show ?thesis
        by (simp add: localVerifyPSS_miss_parsed)
    qed
  qed
qed

lemma Verify_cache_keeps:
  assumes "pubkeyCache w K = Some k" and "\<forall>keyID c tr. Retain env keyID c tr K"
  shows "pubkeyCache (snd (PSSSigningMethod_Verify env m s signature keyConfig w)) K = Some k"
  using assms
  by (cases keyConfig)
     (auto simp: PSSSigningMethod_Verify_def Let_def verifyRSAOrPSS_def kmsClient_Verify_def
        localVerifyPSS_cache_keeps split: sum.split prod.split)

lemma Verify_calls_cache_keeps:
  assumes "pubkeyCache w K = Some k" and "\<forall>keyID c tr. Retain env keyID c tr K"
  shows "pubkeyCache (Verify_calls env calls w) K = Some k"
  using assms(1)
proof (induction calls arbitrary: w)
  case Nil
  then show ?case by simp
next
  case (Cons c calls)
  obtain m s signature keyConfig where c: "c = (m, s, signature, keyConfig)"
    by (cases c) auto
  from Cons.prems assms(2)
  have "pubkeyCache (snd (PSSSigningMethod_Verify env m s signature keyConfig w)) K = Some k"
    by (rule Verify_cache_keeps)
  then show ?case unfolding c by (simp add: Cons.IH)
qed

section \<open>Dispatch on the key argument\<close>

text \<open>
  Claim C2. For every key argument that is neither a \<^verbatim>\<open>*Config\<close> nor a
  \<^verbatim>\<open>*rsa.PublicKey\<close>, \<^verbatim>\<open>Verify\<close> returns \<^verbatim>\<open>jwt.ErrInvalidKeyType\<close>, whatever the signing
  string and the signature are; the state is returned as it was.
\<close>

theorem Verify_other_key_InvalidKeyType:
  assumes "\<forall>cfg. keyConfig \<noteq> ConfigPtr cfg" and "\<forall>pub. keyConfig \<noteq> RsaPublicKeyPtr pub"
  shows "PSSSigningMethod_Verify env m signingString signature keyConfig w =
           (Some ErrInvalidKeyType, w)"
  using assms by (cases keyConfig) (simp_all add: PSSSigningMethod_Verify_def)

theorem Verify_other_key_InvalidKeyType_witness:
  "(\<forall>cfg. OtherKey ''string'' ''secret'' \<noteq> (ConfigPtr cfg :: nat key)) \<and>
   (\<forall>pub. OtherKey ''string'' ''secret'' \<noteq> (RsaPublicKeyPtr pub :: nat key)) \<and>
   PSSSigningMethod_Verify mockEnv PS256 ''gis'' ''c2ln'' (OtherKey ''string'' ''secret'')
       emptyWorld =
     (Some ErrInvalidKeyType, emptyWorld)"
  using Verify_other_key_InvalidKeyType
    [where keyConfig = "OtherKey ''string'' ''secret''" and env = mockEnv and m = PS256
       and signingString = "''gis''" and signature = "''c2ln''" and w = emptyWorld]
  by simp

text \<open>
  Claim C9. For the \<^verbatim>\<open>nil\<close> key argument \<^verbatim>\<open>Verify\<close> returns \<^verbatim>\<open>jwt.ErrInvalidKeyType\<close>, for
  all signing strings and signatures. The state is returned as it was (no cache access,
  no gateway call), and the equation holds for every decoder and every hash function,
  so the result depends on no decoding or hashing.
\<close>

theorem Verify_nil_key_InvalidKeyType:
  "PSSSigningMethod_Verify env m signingString signature NilKey w =
     (Some ErrInvalidKeyType, w)"
  by (simp add: PSSSigningMethod_Verify_def)

theorem Verify_nil_key_InvalidKeyType_witness:
  "PSSSigningMethod_Verify mockEnv PS256 ''gis'' ''c2ln'' NilKey warmWorld =
     (Some ErrInvalidKeyType, warmWorld)"
  using Verify_nil_key_InvalidKeyType
    [where env = mockEnv and m = PS256 and signingString = "''gis''"
       and signature = "''c2ln''" and w = warmWorld]
  by simp

text \<open>
  Claim C3. For every raw \<^verbatim>\<open>*rsa.PublicKey\<close> key argument, \<^verbatim>\<open>Verify\<close> returns exactly what
  the fallback method's \<^verbatim>\<open>Verify\<close> returns on the same signing string, signature and key;
  the state is returned as it was: the cache is not touched, the gateway is not called.
\<close>

theorem Verify_raw_key_fallback:
  "PSSSigningMethod_Verify env m signingString signature (RsaPublicKeyPtr pub) w =
     (RSAPSS_Verify env (fallbackSigningMethod m) signingString signature
        (RsaPublicKeyPtr pub), w)"
  by (simp add: PSSSigningMethod_Verify_def)

theorem Verify_raw_key_fallback_witness:
  "PSSSigningMethod_Verify mockEnv PS256 ''gis'' ''YmFk''
       (RsaPublicKeyPtr \<lparr>N = 3233, E = 17\<rparr>) emptyWorld =
     (Some (ExternalError ''crypto/rsa: verification error''), emptyWorld)"
  using Verify_raw_key_fallback
    [where env = mockEnv and m = PS256 and signingString = "''gis''"
       and signature = "''YmFk''" and pub = "\<lparr>N = 3233, E = 17\<rparr>" and w = emptyWorld]
  by (simp add: mockEnv_def)

section \<open>Decoding the signature\<close>

text \<open>
  Claim C4. For every configuration and every signature that the base64url decoder
  rejects, \<^verbatim>\<open>Verify\<close> returns the decoder's error wrapped as \<open>decoding signature\<close>, and
  the state is returned as it was: no trace entry is added, so no gateway operation and
  no cache access has happened.
\<close>

theorem Verify_malformed_signature:
  assumes "DecodeSegment env signature = Inl err"
  shows "PSSSigningMethod_Verify env m signingString signature (ConfigPtr cfg) w =
           (Some (Errorf ''decoding signature'' err), w)"
  using assms by (simp add: PSSSigningMethod_Verify_def)

theorem Verify_malformed_signature_witness:
  "DecodeSegment mockEnv ''!!'' = Inl (ExternalError ''illegal base64 data'') \<and>
   PSSSigningMethod_Verify mockEnv PS256 ''gis'' ''!!''
       (ConfigPtr (mockConfig ''test-key'' False)) emptyWorld =
     (Some (Errorf ''decoding signature'' (ExternalError ''illegal base64 data'')),
      emptyWorld)"
proof -
  have d: "DecodeSegment mockEnv ''!!'' = Inl (ExternalError ''illegal base64 data'')"
    by (simp add: mockEnv_def)
  from d Verify_malformed_signature
    [OF d, where m = PS256 and signingString = "''gis''"
       and cfg = "mockConfig ''test-key'' False" and w = emptyWorld]
  show ?thesis by simp
qed

section \<open>Remote verification\<close>

text \<open>
  Claim C5. For every configuration with \<^verbatim>\<open>verifyWithKMS\<close> set, a signature that decodes
  and an available hash, \<^verbatim>\<open>Verify\<close> is exactly \<^verbatim>\<open>verifyRSAOrPSS\<close> applied to the
  configuration, the algorithm tag, the digest of the signing string and the decoded
  signature, from the same state. On this path the cache is the same after the call,
  the only trace entry added is the gateway's \<^verbatim>\<open>Verify\<close>, and replacing the cache by any
  other cache \<open>c\<close> changes neither the result nor the rest of the final state: the cache
  is neither read nor modified.
\<close>

theorem Verify_remote:
  assumes "verifyWithKMS cfg" and "DecodeSegment env signature = Inr sig"
    and "Available env (hash m)"
  shows
    "PSSSigningMethod_Verify env m signingString signature (ConfigPtr cfg) w =
       verifyRSAOrPSS cfg (algo m) (Sum env (hash m) (bytes_of signingString)) sig w \<and>
     pubkeyCache (snd (PSSSigningMethod_Verify env m signingString signature (ConfigPtr cfg) w)) =
       pubkeyCache w \<and>
     trace (snd (PSSSigningMethod_Verify env m signingString signature (ConfigPtr cfg) w)) =
       trace w @ [KmsVerify (kmsKeyID cfg)] \<and>
     PSSSigningMethod_Verify env m signingString signature (ConfigPtr cfg)
         (w\<lparr>pubkeyCache := c\<rparr>) =
       (fst (PSSSigningMethod_Verify env m signingString signature (ConfigPtr cfg) w),
        (snd (PSSSigningMethod_Verify env m signingString signature (ConfigPtr cfg) w))
           \<lparr>pubkeyCache := c\<rparr>)"
  using assms
  by (simp add: PSSSigningMethod_Verify_def verifyRSAOrPSS_def kmsClient_Verify_def
      split: prod.split)

theorem Verify_remote_witness:
  "verifyWithKMS (mockConfig ''test-key'' True) \<and>
   DecodeSegment mockEnv ''c2ln'' = Inr [0x73, 0x69, 0x67] \<and>
   Available mockEnv (hash PS256) \<and>
   fst (PSSSigningMethod_Verify mockEnv PS256 ''gis'' ''c2ln''
          (ConfigPtr (mockConfig ''test-key'' True)) emptyWorld) = None \<and>
   pubkeyCache (snd (PSSSigningMethod_Verify mockEnv PS256 ''gis'' ''c2ln''
          (ConfigPtr (mockConfig ''test-key'' True)) emptyWorld)) ''test-key'' = None \<and>
   trace (snd (PSSSigningMethod_Verify mockEnv PS256 ''gis'' ''c2ln''
          (ConfigPtr (mockConfig ''test-key'' True)) emptyWorld)) = [KmsVerify ''test-key'']"
  using Verify_remote
    [where cfg = "mockConfig ''test-key'' True" and env = mockEnv and signature = "''c2ln''"
       and sig = "[0x73, 0x69, 0x67]" and m = PS256 and signingString = "''gis''"
       and w = emptyWorld and c = Map.empty]
  by (simp add: mock_defs op_defs)

section \<open>Local verification\<close>

text \<open>
  Claim C1. For every configuration with \<^verbatim>\<open>verifyWithKMS\<close> unset, every signing string
  and every signature that decodes: once the key is resolved to an RSA key (from the
  cache, or on a miss fetched and parsed) with the hash available, the result of
  \<^verbatim>\<open>Verify\<close> is decided by \<^verbatim>\<open>rsa.VerifyPSS\<close> on that key, the method's hash, the digest of
  the signing string under that hash, the decoded signature and the zero-valued
  \<^verbatim>\<open>rsa.PSSOptions\<close> (salt length 0, the automatic one): an error of the check comes back
  wrapped as \<open>verifying signature locally\<close>, never as \<^verbatim>\<open>nil\<close>. Conversely \<^verbatim>\<open>Verify\<close>
  returns \<^verbatim>\<open>nil\<close> only when the hash is available and the check passed for the RSA key
  that the cache holds for the key identifier after the call.
\<close>

theorem Verify_local_PSS:
  assumes "\<not> verifyWithKMS cfg" and "DecodeSegment env signature = Inr sig"
  shows
    "(Available env (hash m) \<and>
      (pubkeyCache w (kmsKeyID cfg) = Some (RsaKey pub) \<or>
       pubkeyCache w (kmsKeyID cfg) = None \<and>
       GetPublicKey (kmsClient cfg) (ctx cfg) (kmsKeyID cfg) (kms w) = (Inr der, g) \<and>
       ParsePKIXPublicKey env der = Inr (RsaKey pub)) \<longrightarrow>
      fst (PSSSigningMethod_Verify env m signingString signature (ConfigPtr cfg) w) =
        (case VerifyPSS env pub (hash m) (Sum env (hash m) (bytes_of signingString)) sig
                \<lparr>SaltLength = 0, Hash = 0\<rparr> of
           Some err \<Rightarrow> Some (Errorf ''verifying signature locally'' err)
         | None \<Rightarrow> None)) \<and>
     (fst (PSSSigningMethod_Verify env m signingString signature (ConfigPtr cfg) w) = None \<longrightarrow>
      Available env (hash m) \<and>
      (\<exists>pub'. pubkeyCache (snd (PSSSigningMethod_Verify env m signingString signature
                                  (ConfigPtr cfg) w)) (kmsKeyID cfg) = Some (RsaKey pub') \<and>
              VerifyPSS env pub' (hash m) (Sum env (hash m) (bytes_of signingString)) sig
                \<lparr>SaltLength = 0, Hash = 0\<rparr> = None))"
proof -
  let ?d = "Sum env (hash m) (bytes_of signingString)"
  let ?r = "PSSSigningMethod_Verify env m signingString signature (ConfigPtr cfg) w"
  have unfold: "Available env (hash m) \<Longrightarrow> ?r = localVerifyPSS env cfg (hash m) ?d sig w"
    using assms by (simp add: PSSSigningMethod_Verify_def)
  have unavailable: "\<not> Available env (hash m) \<Longrightarrow> fst ?r = Some ErrHashUnavailable"
    using assms by (simp add: PSSSigningMethod_Verify_def)
  have first: "fst ?r =
        (case VerifyPSS env pub (hash m) ?d sig \<lparr>SaltLength = 0, Hash = 0\<rparr> of
           Some err \<Rightarrow> Some (Errorf ''verifying signature locally'' err)
         | None \<Rightarrow> None)"
    if "Available env (hash m)"
      and "pubkeyCache w (kmsKeyID cfg) = Some (RsaKey pub) \<or>
       pubkeyCache w (kmsKeyID cfg) = None \<and>
       GetPublicKey (kmsClient cfg) (ctx cfg) (kmsKeyID cfg) (kms w) = (Inr der, g) \<and>
       ParsePKIXPublicKey env der = Inr (RsaKey pub)"
    using that(2)
  proof
    assume "pubkeyCache w (kmsKeyID cfg) = Some (RsaKey pub)"
    then show ?thesis by (simp add: unfold [OF that(1)] localVerifyPSS_hit)
  next
    assume "pubkeyCache w (kmsKeyID cfg) = None \<and>
       GetPublicKey (kmsClient cfg) (ctx cfg) (kmsKeyID cfg) (kms w) = (Inr der, g) \<and>
       ParsePKIXPublicKey env der = Inr (RsaKey pub)"
    then show ?thesis by (simp add: unfold [OF that(1)] localVerifyPSS_miss_parsed)
  qed
  have second: "Available env (hash m) \<and>
      (\<exists>pub'. pubkeyCache (snd ?r) (kmsKeyID cfg) = Some (RsaKey pub') \<and>
              VerifyPSS env pub' (hash m) ?d sig \<lparr>SaltLength = 0, Hash = 0\<rparr> = None)"
    if nil: "fst ?r = None"
  proof -
    have av: "Available env (hash m)" using nil unavailable by auto
    have "localVerifyPSS env cfg (hash m) ?d sig w = (None, snd ?r)"
      using nil unfold [OF av] by (metis prod.collapse)
    from localVerifyPSS_nil [OF this] av show ?thesis by simp
  qed
  from first second show ?thesis by blast
qed

theorem Verify_local_PSS_witness:
  "\<not> verifyWithKMS (mockConfig ''test-key'' False) \<and>
   DecodeSegment mockEnv ''YmFk'' = Inr [0x62, 0x61, 0x64] \<and>
   Available mockEnv (hash PS256) \<and>
   pubkeyCache emptyWorld (kmsKeyID (mockConfig ''test-key'' False)) = None \<and>
   GetPublicKey mockKMS (Context 0) ''test-key'' (kms emptyWorld) = (Inr [0x30, 0x82], 1) \<and>
   ParsePKIXPublicKey mockEnv [0x30, 0x82] = Inr (RsaKey \<lparr>N = 3233, E = 17\<rparr>) \<and>
   fst (PSSSigningMethod_Verify mockEnv PS256 ''gis'' ''YmFk''
          (ConfigPtr (mockConfig ''test-key'' False)) emptyWorld) =
     Some (Errorf ''verifying signature locally''
             (ExternalError ''crypto/rsa: verification error'')) \<and>
   fst (PSSSigningMethod_Verify mockEnv PS256 ''gis'' ''c2ln''
          (ConfigPtr (mockConfig ''test-key'' False)) warmWorld) = None \<and>
   VerifyPSS mockEnv \<lparr>N = 3233, E = 17\<rparr> 5 [0x73, 0x69, 0x67] [0x73, 0x69, 0x67]
     \<lparr>SaltLength = 0, Hash = 0\<rparr> = None"
  using
    Verify_local_PSS
      [where cfg = "mockConfig ''test-key'' False" and env = mockEnv
         and signature = "''YmFk''" and sig = "[0x62, 0x61, 0x64]" and m = PS256
         and w = emptyWorld and pub = "\<lparr>N = 3233, E = 17\<rparr>" and der = "[0x30, 0x82]"
         and g = 1 and signingString = "''gis''"]
    Verify_local_PSS
      [where cfg = "mockConfig ''test-key'' False" and env = mockEnv
         and signature = "''c2ln''" and sig = "[0x73, 0x69, 0x67]" and m = PS256
         and w = warmWorld and pub = "\<lparr>N = 3233, E = 17\<rparr>" and der = "[]"
         and g = 0 and signingString = "''gis''"]
  by (simp add: mock_defs bytes_of_def)

text \<open>
  Claim C6. If the cache holds an entry for the key identifier of the configuration,
  \<^verbatim>\<open>localVerifyPSS\<close> decides on the cached key, and the final state is the initial one
  with a single trace entry added, the cache read: the gateway's state is the same and
  no \<^verbatim>\<open>GetPublicKey\<close> call was made. In particular, after a local verify for a key
  identifier has returned \<^verbatim>\<open>nil\<close>, a local verify for the same key identifier adds the
  cache read to the trace and nothing else, when it is the next call, and also after any
  further \<^verbatim>\<open>Verify\<close> calls when the cache's policy does not evict that identifier.
\<close>

theorem localVerifyPSS_cached_key_no_fetch:
  "(pubkeyCache w (kmsKeyID cfg) = Some k \<longrightarrow>
      localVerifyPSS env cfg h d sig w =
        (case k of
           RsaKey pub \<Rightarrow>
             (case VerifyPSS env pub h d sig \<lparr>SaltLength = 0, Hash = 0\<rparr> of
                Some err \<Rightarrow> Some (Errorf ''verifying signature locally'' err)
              | None \<Rightarrow> None)
         | _ \<Rightarrow> Some (ErrorsNew ''invalid key type for key''),
         w\<lparr>trace := trace w @ [CacheGet (kmsKeyID cfg)]\<rparr>)) \<and>
   (localVerifyPSS env cfg0 h0 d0 sig0 w0 = (None, w1) \<and> kmsKeyID cfg = kmsKeyID cfg0 \<and>
    Verify_calls env calls w1 = w2 \<and>
    (calls = [] \<or> (\<forall>keyID c tr. Retain env keyID c tr (kmsKeyID cfg))) \<longrightarrow>
      snd (localVerifyPSS env cfg h d sig w2) =
        w2\<lparr>trace := trace w2 @ [CacheGet (kmsKeyID cfg)]\<rparr>)"
proof (intro conjI impI)
  assume "pubkeyCache w (kmsKeyID cfg) = Some k"
  then show "localVerifyPSS env cfg h d sig w =
        (case k of
           RsaKey pub \<Rightarrow>
             (case VerifyPSS env pub h d sig \<lparr>SaltLength = 0, Hash = 0\<rparr> of
                Some err \<Rightarrow> Some (Errorf ''verifying signature locally'' err)
              | None \<Rightarrow> None)
         | _ \<Rightarrow> Some (ErrorsNew ''invalid key type for key''),
         w\<lparr>trace := trace w @ [CacheGet (kmsKeyID cfg)]\<rparr>)"
    by (rule localVerifyPSS_hit)
next
  assume a: "localVerifyPSS env cfg0 h0 d0 sig0 w0 = (None, w1) \<and> kmsKeyID cfg = kmsKeyID cfg0 \<and>
    Verify_calls env calls w1 = w2 \<and>
    (calls = [] \<or> (\<forall>keyID c tr. Retain env keyID c tr (kmsKeyID cfg)))"
  then obtain pub where held: "pubkeyCache w1 (kmsKeyID cfg) = Some (RsaKey pub)"
    using localVerifyPSS_nil by fastforce
  from a have "calls = [] \<or> (\<forall>keyID c tr. Retain env keyID c tr (kmsKeyID cfg))"
    by blast
  then have "pubkeyCache (Verify_calls env calls w1) (kmsKeyID cfg) = Some (RsaKey pub)"
  proof
    assume "calls = []"
    with held show ?thesis by simp
  next
    assume "\<forall>keyID c tr. Retain env keyID c tr (kmsKeyID cfg)"
    with held show ?thesis by (rule Verify_calls_cache_keeps)
  qed
  with a have "pubkeyCache w2 (kmsKeyID cfg) = Some (RsaKey pub)" by simp
  then show "snd (localVerifyPSS env cfg h d sig w2) =
        w2\<lparr>trace := trace w2 @ [CacheGet (kmsKeyID cfg)]\<rparr>"
    by (simp add: localVerifyPSS_hit)
qed

theorem localVerifyPSS_cached_key_no_fetch_witness:
  "pubkeyCache warmWorld (kmsKeyID (mockConfig ''test-key'' False)) =
     Some (RsaKey \<lparr>N = 3233, E = 17\<rparr>) \<and>
   localVerifyPSS mockEnv (mockConfig ''test-key'' False) 5 [0x73, 0x69, 0x67]
       [0x62, 0x61, 0x64] warmWorld =
     (Some (Errorf ''verifying signature locally''
              (ExternalError ''crypto/rsa: verification error'')),
      warmWorld\<lparr>trace := trace warmWorld @ [CacheGet ''test-key'']\<rparr>) \<and>
   localVerifyPSS mockEnv (mockConfig ''test-key'' False) 5 [0x73, 0x69, 0x67]
       [0x73, 0x69, 0x67] emptyWorld = (None, warmWorld) \<and>
   (\<forall>keyID c tr. Retain mockEnv keyID c tr (kmsKeyID (mockConfig ''test-key'' False))) \<and>
   trace (snd (localVerifyPSS mockEnv (mockConfig ''test-key'' False) 5 [0x73, 0x69, 0x67]
       [0x62, 0x61, 0x64]
       (Verify_calls mockEnv
          [(PS256, ''gis'', ''c2ln'', ConfigPtr (mockConfig ''ec-key'' False))] warmWorld))) =
     [CacheGet ''test-key'', KmsGetPublicKey ''test-key'', CacheAdd ''test-key'',
      CacheGet ''ec-key'', KmsGetPublicKey ''ec-key'', CacheAdd ''ec-key'',
      CacheGet ''test-key'']"
  using localVerifyPSS_cached_key_no_fetch
    [where w = warmWorld and cfg = "mockConfig ''test-key'' False"
       and k = "RsaKey \<lparr>N = 3233, E = 17\<rparr>" and env = mockEnv and h = 5
       and d = "[0x73, 0x69, 0x67]" and sig = "[0x62, 0x61, 0x64]"
       and ?cfg0.0 = "mockConfig ''test-key'' False" and ?h0.0 = 5
       and ?d0.0 = "[0x73, 0x69, 0x67]" and ?sig0.0 = "[0x73, 0x69, 0x67]"
       and ?w0.0 = emptyWorld and ?w1.0 = warmWorld
       and calls = "[(PS256, ''gis'', ''c2ln'', ConfigPtr (mockConfig ''ec-key'' False))]"
       and ?w2.0 = "Verify_calls mockEnv
          [(PS256, ''gis'', ''c2ln'', ConfigPtr (mockConfig ''ec-key'' False))] warmWorld"]
  by (simp add: mock_defs op_defs localVerifyPSS_def PSSSigningMethod_Verify_def)

text \<open>
  Claim C7. On a cache miss, if the gateway's \<^verbatim>\<open>GetPublicKey\<close> fails, \<^verbatim>\<open>localVerifyPSS\<close>
  returns the gateway's error wrapped as \<open>getting public key\<close>; if the gateway answers
  and the key material does not parse, it returns the parser's error wrapped as
  \<open>parsing public key\<close>. In both cases the cache after the call is the cache before it,
  and the trace gains the cache read and the gateway call, and no \<^verbatim>\<open>Add\<close>.
\<close>

theorem localVerifyPSS_miss_errors:
  assumes "pubkeyCache w (kmsKeyID cfg) = None"
  shows
    "(GetPublicKey (kmsClient cfg) (ctx cfg) (kmsKeyID cfg) (kms w) = (Inl err, g) \<longrightarrow>
        fst (localVerifyPSS env cfg h d sig w) = Some (Errorf ''getting public key'' err) \<and>
        pubkeyCache (snd (localVerifyPSS env cfg h d sig w)) = pubkeyCache w \<and>
        trace (snd (localVerifyPSS env cfg h d sig w)) =
          trace w @ [CacheGet (kmsKeyID cfg), KmsGetPublicKey (kmsKeyID cfg)]) \<and>
     (GetPublicKey (kmsClient cfg) (ctx cfg) (kmsKeyID cfg) (kms w) = (Inr der, g) \<and>
      ParsePKIXPublicKey env der = Inl err \<longrightarrow>
        fst (localVerifyPSS env cfg h d sig w) = Some (Errorf ''parsing public key'' err) \<and>
        pubkeyCache (snd (localVerifyPSS env cfg h d sig w)) = pubkeyCache w \<and>
        trace (snd (localVerifyPSS env cfg h d sig w)) =
          trace w @ [CacheGet (kmsKeyID cfg), KmsGetPublicKey (kmsKeyID cfg)])"
  using assms
  by (simp add: localVerifyPSS_miss_gateway_error localVerifyPSS_miss_parse_error)

theorem localVerifyPSS_miss_errors_witness:
  "pubkeyCache emptyWorld (kmsKeyID (mockConfig ''no-key'' False)) = None \<and>
   GetPublicKey mockKMS (Context 0) ''no-key'' (kms emptyWorld) =
     (Inl (ExternalError ''NotFoundException''), 1) \<and>
   fst (localVerifyPSS mockEnv (mockConfig ''no-key'' False) 5 [] [] emptyWorld) =
     Some (Errorf ''getting public key'' (ExternalError ''NotFoundException'')) \<and>
   pubkeyCache (snd (localVerifyPSS mockEnv (mockConfig ''no-key'' False) 5 [] [] emptyWorld))
       ''no-key'' = None \<and>
   pubkeyCache emptyWorld (kmsKeyID (mockConfig ''bad-der'' False)) = None \<and>
   GetPublicKey mockKMS (Context 0) ''bad-der'' (kms emptyWorld) = (Inr [0xFF], 1) \<and>
   ParsePKIXPublicKey mockEnv [0xFF] = Inl (ExternalError ''asn1: structure error'') \<and>
   fst (localVerifyPSS mockEnv (mockConfig ''bad-der'' False) 5 [] [] emptyWorld) =
     Some (Errorf ''parsing public key'' (ExternalError ''asn1: structure error'')) \<and>
   pubkeyCache (snd (localVerifyPSS mockEnv (mockConfig ''bad-der'' False) 5 [] [] emptyWorld))
       ''bad-der'' = None"
  using
    localVerifyPSS_miss_errors
      [where w = emptyWorld and cfg = "mockConfig ''no-key'' False"
         and err = "ExternalError ''NotFoundException''" and g = 1 and env = mockEnv
         and h = 5 and d = "[]" and sig = "[]" and der = "[]"]
    localVerifyPSS_miss_errors
      [where w = emptyWorld and cfg = "mockConfig ''bad-der'' False"
         and err = "ExternalError ''asn1: structure error''" and g = 1 and env = mockEnv
         and h = 5 and d = "[]" and sig = "[]" and der = "[0xFF]"]
  by (simp add: mock_defs)

text \<open>
  Claim C8. If the resolved key (the cached one, or on a miss the one fetched and
  parsed) is not an RSA key, \<^verbatim>\<open>localVerifyPSS\<close> returns the error
  \<^verbatim>\<open>errors.New("invalid key type for key")\<close>.
\<close>

theorem localVerifyPSS_non_RSA_key:
  assumes "\<forall>pub. k \<noteq> RsaKey pub"
    and "pubkeyCache w (kmsKeyID cfg) = Some k \<or>
         pubkeyCache w (kmsKeyID cfg) = None \<and>
         GetPublicKey (kmsClient cfg) (ctx cfg) (kmsKeyID cfg) (kms w) = (Inr der, g) \<and>
         ParsePKIXPublicKey env der = Inr k"
  shows "fst (localVerifyPSS env cfg h d sig w) = Some (ErrorsNew ''invalid key type for key'')"
  using assms(2)
proof
  assume "pubkeyCache w (kmsKeyID cfg) = Some k"
  with assms(1) show ?thesis
    by (cases k) (simp_all add: localVerifyPSS_hit)
next
  assume "pubkeyCache w (kmsKeyID cfg) = None \<and>
         GetPublicKey (kmsClient cfg) (ctx cfg) (kmsKeyID cfg) (kms w) = (Inr der, g) \<and>
         ParsePKIXPublicKey env der = Inr k"
  with assms(1) show ?thesis
    by (cases k) (simp_all add: localVerifyPSS_miss_parsed)
qed

theorem localVerifyPSS_non_RSA_key_witness:
  "(\<forall>pub. EcdsaKey [0x04] \<noteq> RsaKey pub) \<and>
   pubkeyCache emptyWorld (kmsKeyID (mockConfig ''ec-key'' False)) = None \<and>
   GetPublicKey mockKMS (Context 0) ''ec-key'' (kms emptyWorld) = (Inr [0x30, 0x59], 1) \<and>
   ParsePKIXPublicKey mockEnv [0x30, 0x59] = Inr (EcdsaKey [0x04]) \<and>
   fst (localVerifyPSS mockEnv (mockConfig ''ec-key'' False) 5 [0x73, 0x69, 0x67]
          [0x73, 0x69, 0x67] emptyWorld) =
     Some (ErrorsNew ''invalid key type for key'')"
  using localVerifyPSS_non_RSA_key
    [where k = "EcdsaKey [0x04]" and w = emptyWorld and cfg = "mockConfig ''ec-key'' False"
       and der = "[0x30, 0x59]" and g = 1 and env = mockEnv and h = 5
       and d = "[0x73, 0x69, 0x67]" and sig = "[0x73, 0x69, 0x67]"]
  by (simp add: mock_defs)




end
